theory Spec2Isabelle
  imports Main "HOL-Library.Word" "HOL-Library.Sublist"
begin

section \<open>Remote log access of ledgerwatch/diagnostics (cmd/logs.go)\<close>

text \<open>
  Go's \<open>string\<close> and \<open>[]byte\<close> are byte sequences: both are \<open>string\<close> here (a
  \<open>char\<close> is one byte). A nil slice and an empty slice are the same list \<open>[]\<close>: the code
  only takes their length and copies from them. \<open>uint64\<close> is a 64-bit word; \<open>int64\<close> has
  the same 64 bits, read in two's complement by \<open>sint\<close>, so the conversions
  \<open>uint64(x)\<close> and \<open>int64(x)\<close> of the source are the identity on the word.
\<close>

type_synonym uint64 = "64 word"
type_synonym int64 = "64 word"

subsection \<open>The functions of Go's standard library that logs.go calls\<close>

definition newline :: char where
  "newline = CHR 0x0A"

definition isDigit :: "char \<Rightarrow> bool" where
  "isDigit c = (48 \<le> (of_char c :: nat) \<and> (of_char c :: nat) \<le> 57)"

definition digitVal :: "char \<Rightarrow> nat" where
  "digitVal c = (of_char c :: nat) - 48"

text \<open>\<open>strings.HasPrefix(s, p)\<close> is \<open>prefix p s\<close> of the list library.\<close>

text \<open>
  \<open>bytes.IndexByte(b, c)\<close>: the index of the first \<open>c\<close> in \<open>b\<close>; the source's \<open>-1\<close> is
  \<open>None\<close>.
\<close>

fun IndexByte :: "string \<Rightarrow> char \<Rightarrow> nat option" where
  "IndexByte [] c = None"
| "IndexByte (x # xs) c =
     (if x = c then Some 0 else map_option Suc (IndexByte xs c))"

text \<open>
  \<open>strings.Split(s, sep)\<close> for a separator that is not empty (the source splits on
  \<open>"\n"\<close> and on \<open>" | "\<close>): the fields between the occurrences of \<open>sep\<close>, found from the
  left without overlap; one field more than there are occurrences, so never the empty
  list. With the empty separator Go splits into characters; that case is not called and
  the model returns the input as its only field.
\<close>

function Split :: "string \<Rightarrow> string \<Rightarrow> string list" where
  "Split [] sep = [[]]"
| "Split (c # cs) sep =
     (if sep = [] then [c # cs]
      else if prefix sep (c # cs) then [] # Split (drop (length sep) (c # cs)) sep
      else (case Split cs sep of
              [] \<Rightarrow> [[c]]
            | f # fs \<Rightarrow> (c # f) # fs))"
  by pat_completeness auto
termination
  by (relation "measure (\<lambda>(s, sep). length s)") auto

text \<open>
  \<open>strconv.ParseUint(s, 10, 64)\<close>: the loop of the library over the bytes of \<open>s\<close>, with
  its two overflow checks (\<open>cutoff = maxUint64 / 10 + 1\<close>); no sign, no underscore, and
  the empty string is a syntax error.
\<close>

datatype NumError = ErrSyntax | ErrRange

definition maxUint64 :: nat where
  "maxUint64 = 2 ^ 64 - 1"

fun ParseUint_loop :: "nat \<Rightarrow> string \<Rightarrow> NumError + nat" where
  "ParseUint_loop n [] = Inr n"
| "ParseUint_loop n (c # cs) =
     (if \<not> isDigit c then Inl ErrSyntax
      else if maxUint64 div 10 + 1 \<le> n then Inl ErrRange
      else if maxUint64 < n * 10 + digitVal c then Inl ErrRange
      else ParseUint_loop (n * 10 + digitVal c) cs)"

definition ParseUint :: "string \<Rightarrow> NumError + uint64" where
  "ParseUint s =
     (if s = [] then Inl ErrSyntax
      else (case ParseUint_loop 0 s of
              Inl e \<Rightarrow> Inl e
            | Inr n \<Rightarrow> Inr (of_nat n)))"

text \<open>
  The text of a \<open>*strconv.NumError\<close> under \<open>%v\<close>. \<open>strconv.Quote\<close> of a string of
  decimal digits only puts it between double quotes, and \<open>parseLogPart\<close> parses digits
  only.
\<close>

definition NumError_text :: "NumError \<Rightarrow> string" where
  "NumError_text e = (case e of ErrSyntax \<Rightarrow> ''invalid syntax'' | ErrRange \<Rightarrow> ''value out of range'')"

definition NumError_Error :: "string \<Rightarrow> NumError \<Rightarrow> string" where
  "NumError_Error num e =
     ''strconv.ParseUint: parsing '' @ [CHR 0x22] @ num @ [CHR 0x22] @ '': '' @ NumError_text e"

text \<open>\<open>%d\<close> of an unsigned integer: its decimal digits, \<open>"0"\<close> for zero.\<close>

definition digitChar :: "nat \<Rightarrow> char" where
  "digitChar d = ''0123456789'' ! (d mod 10)"

fun fmt_d :: "nat \<Rightarrow> string" where
  "fmt_d n =
     (if n < 10 then [digitChar n]
      else fmt_d (n div 10) @ [digitChar (n mod 10)])"

declare fmt_d.simps [simp del]

text \<open>\<open>%v\<close> of a \<open>[]string\<close>: the elements, separated by one space, in brackets.\<close>

fun join_space :: "string list \<Rightarrow> string" where
  "join_space [] = []"
| "join_space [x] = x"
| "join_space (x # y # ys) = x @ '' '' @ join_space (y # ys)"

definition fmt_v_strings :: "string list \<Rightarrow> string" where
  "fmt_v_strings xs = ''['' @ join_space xs @ '']''"

subsection \<open>The first line of a chunk response\<close>

text \<open>
  \<open>logReadFirstLine = regexp.MustCompile("^SUCCESS: ([0-9]+)-([0-9]+)/([0-9]+)$")\<close> and
  its \<open>FindSubmatch\<close>: the three groups, or \<open>None\<close> for the source's \<open>nil\<close>. Without the
  flag \<open>m\<close>, \<open>^\<close> and \<open>$\<close> are the two ends of the text. A group is a longest run of
  digits: the character after it must be \<open>-\<close>, \<open>/\<close> or the end, none of them a digit, so
  no shorter run can match.
\<close>

definition logReadFirstLine :: "string \<Rightarrow> (string \<times> string \<times> string) option" where
  "logReadFirstLine line =
     (if \<not> prefix ''SUCCESS: '' line then None
      else
        let r0 = drop (length ''SUCCESS: '') line;
            m1 = takeWhile isDigit r0;
            r1 = dropWhile isDigit r0
        in if m1 = [] then None
           else (case r1 of
                   [] \<Rightarrow> None
                 | c1 # r1' \<Rightarrow>
                     if c1 \<noteq> CHR ''-'' then None
                     else
                       let m2 = takeWhile isDigit r1';
                           r2 = dropWhile isDigit r1'
                       in if m2 = [] then None
                          else (case r2 of
                                  [] \<Rightarrow> None
                                | c2 # r2' \<Rightarrow>
                                    if c2 \<noteq> CHR ''/'' then None
                                    else
                                      let m3 = takeWhile isDigit r2';
                                          r3 = dropWhile isDigit r2'
                                      in if m3 = [] \<or> r3 \<noteq> [] then None
                                         else Some (m1, m2, m3))))"

subsection \<open>The request record and the byte-chunk decoder\<close>

text \<open>
  Modelled from the spec: the struct \<open>NodeRequest\<close> is declared outside \<open>cmd/logs.go\<close>.
  It has the fields logs.go reads and writes (\<open>url\<close>, \<open>served\<close>, \<open>response\<close>, \<open>err\<close>,
  \<open>retries\<close>), which the spec calls target, isServed, payload, errorText and
  attemptCount (an integer); its \<open>lock\<close> makes one call of \<open>parseLogPart\<close> see one
  consistent snapshot, and a value of this record is such a snapshot.
\<close>

record NodeRequest =
  url :: string
  served :: bool
  response :: string
  err :: string
  retries :: int

text \<open>
  \<open>parseLogPart\<close> returns \<open>(clear, to, total, part, errStr)\<close>; each \<open>return\<close> of the
  source is one branch, in the source's order.
\<close>

definition parseLogPart :: "NodeRequest \<Rightarrow> uint64 \<Rightarrow> bool \<times> uint64 \<times> uint64 \<times> string \<times> string" where
  "parseLogPart nodeRequest offset =
     (if \<not> served nodeRequest then (False, 0, 0, [], [])
      else
        let clear = (16 \<le> retries nodeRequest) in
        if err nodeRequest \<noteq> [] then (clear, 0, 0, [], err nodeRequest)
        else (case IndexByte (response nodeRequest) newline of
                None \<Rightarrow> (clear, 0, 0, [], ''could not find first line in log part response'')
              | Some firstLineEnd \<Rightarrow>
                  (case logReadFirstLine (take firstLineEnd (response nodeRequest)) of
                     None \<Rightarrow>
                       (clear, 0, 0, [],
                        ''first line needs to have format SUCCESS: from-to/total, was [''
                          @ take firstLineEnd (response nodeRequest) @ ''n'')
                   | Some (m1, m2, m3) \<Rightarrow>
                       (case ParseUint m1 of
                          Inl e \<Rightarrow> (clear, 0, 0, [], ''parsing from: '' @ NumError_Error m1 e)
                        | Inr fromN \<Rightarrow>
                            if fromN \<noteq> offset then
                              (clear, 0, 0, [],
                               ''Unexpected from '' @ fmt_d (unat fromN) @ '', wanted '' @ fmt_d (unat offset))
                            else (case ParseUint m2 of
                                    Inl e \<Rightarrow> (clear, 0, 0, [], ''parsing to: '' @ NumError_Error m2 e)
                                  | Inr toN \<Rightarrow>
                                      (case ParseUint m3 of
                                         Inl e \<Rightarrow> (clear, 0, 0, [], ''parsing total: '' @ NumError_Error m3 e)
                                       | Inr totalN \<Rightarrow>
                                           (True, toN, totalN,
                                            drop (firstLineEnd + 1) (response nodeRequest), [])))))))"

subsection \<open>Decimal numerals, as the wire format writes them\<close>

text \<open>
  An unsigned decimal integer of a response is a string of one digit or more (leading
  zeros allowed); \<open>decVal\<close> is the number it writes. They say what \<open>ParseUint\<close> and the
  pattern of the first line have to compute, and are not part of the program.
\<close>

definition isNumeral :: "string \<Rightarrow> bool" where
  "isNumeral s = (s \<noteq> [] \<and> list_all isDigit s)"

definition decVal :: "string \<Rightarrow> nat" where
  "decVal s = foldl (\<lambda>n c. n * 10 + digitVal c) 0 s"

subsection \<open>Human-readable sizes\<close>

text \<open>
  \<open>MBToGB\<close> and \<open>ByteCount\<close> compute in \<open>float64\<close>. The values are modelled exactly, by
  integers: \<open>float64(b)\<close> of a \<open>uint64\<close> rounds \<open>b\<close> to 53 significant bits, to nearest
  and ties to even, which is again an integer; \<open>div\<close> is a power of two, at most
  \<open>2 ^ 60\<close>, so \<open>float64(div)\<close> is exact and so is the quotient, which \<open>MBToGB\<close>
  returns here as the fraction of numerator and denominator. \<open>%.1f\<close> prints the exact
  value rounded to one decimal, ties to even.
\<close>

fun bitlen :: "nat \<Rightarrow> nat" where
  "bitlen n = (if n = 0 then 0 else Suc (bitlen (n div 2)))"

declare bitlen.simps [simp del]

definition float64_of_uint64 :: "nat \<Rightarrow> nat" where
  "float64_of_uint64 b =
     (if b < 2 ^ 53 then b
      else
        let e = bitlen b - 53;
            q = b div 2 ^ e;
            r = b mod 2 ^ e;
            h = 2 ^ (e - 1)
        in (if h < r \<or> (r = h \<and> odd q) then q + 1 else q) * 2 ^ e)"

fun MBToGB_loop :: "nat \<Rightarrow> nat \<Rightarrow> nat \<Rightarrow> nat \<times> nat" where
  "MBToGB_loop n dv exp =
     (if 1024 \<le> n then MBToGB_loop (n div 1024) (dv * 1024) (exp + 1) else (dv, exp))"

declare MBToGB_loop.simps [simp del]

definition MBToGB :: "uint64 \<Rightarrow> (nat \<times> nat) \<times> nat" where
  "MBToGB b =
     (if unat b < 1024 then ((float64_of_uint64 (unat b), 1), 0)
      else
        let (dv, exp) = MBToGB_loop (unat b div 1024) 1024 0
        in ((float64_of_uint64 (unat b), float64_of_uint64 dv), exp))"

definition fmt_1f :: "nat \<times> nat \<Rightarrow> string" where
  "fmt_1f x =
     (let num = fst x * 10;
          den = snd x;
          q = num div den;
          r = num mod den;
          t = (if den < 2 * r \<or> (2 * r = den \<and> odd q) then q + 1 else q)
      in fmt_d (t div 10) @ ''.'' @ fmt_d (t mod 10))"

text \<open>
  \<open>"KMGTPE"[exp]\<close> is in range: \<open>exp\<close> is at most 5 for a \<open>uint64\<close> (lemma
  \<open>MBToGB_exp_in_range\<close> below), so the index never panics.
\<close>

definition ByteCount :: "uint64 \<Rightarrow> string" where
  "ByteCount b =
     (if unat b < 1024 then fmt_d (unat b) @ ''B''
      else
        let (bGB, exp) = MBToGB b
        in fmt_1f bGB @ [''KMGTPE'' ! exp] @ ''B'')"

subsection \<open>The list decoder and the snippet decoder\<close>

record LogListItem =
  Filename :: string
  Size :: int64
  PrintedSize :: string

record LogList =
  Success :: bool
  Error :: string
  SessionName :: string
  List :: "LogListItem list"

text \<open>
  \<open>LogPart\<close> has fields \<open>Success\<close> and \<open>Error\<close> of its own; they carry a \<open>P\<close> here.
\<close>

record LogPart =
  SuccessP :: bool
  ErrorP :: string
  Lines :: "string list"

text \<open>
  The loop of \<open>LogList.processResponse\<close> over \<open>lines[1:]\<close>: \<open>continue\<close> on an empty
  line, \<open>return\<close> with \<open>ll.Error\<close> set on a bad line, \<open>ll.Success = true\<close> after the
  last line.
\<close>

fun processLines :: "LogList \<Rightarrow> string list \<Rightarrow> LogList" where
  "processLines ll [] = ll\<lparr>Success := True\<rparr>"
| "processLines ll (l # ls) =
     (if length l = 0 then processLines ll ls
      else
        let terms = Split l '' | '' in
        if length terms \<noteq> 2 then
          ll\<lparr>Error := ''incorrect response line (need to have 2 terms divided by |): '' @ l\<rparr>
        else (case ParseUint (terms ! 1) of
                Inl e \<Rightarrow> ll\<lparr>Error := ''incorrect size: '' @ terms ! 1\<rparr>
              | Inr sz \<Rightarrow>
                  processLines
                    (ll\<lparr>List := List ll @
                         [\<lparr>Filename = terms ! 0, Size = sz, PrintedSize = ByteCount sz\<rparr>]\<rparr>)
                    ls))"

text \<open>
  The constant \<open>successLine\<close>, the fixed success marker, is declared outside
  \<open>cmd/logs.go\<close>: it is the first argument of the two methods that use it, so what is
  proved of them holds for every marker.
\<close>

definition LogList_processResponse :: "string \<Rightarrow> LogList \<Rightarrow> string \<Rightarrow> bool \<Rightarrow> LogList" where
  "LogList_processResponse successLine ll result success =
     (if \<not> success then ll\<lparr>Error := result\<rparr>
      else
        let lines = Split result [newline] in
        if length lines < 2 then
          ll\<lparr>Error := ''incorrect response (length of lines should be at least 2): ''
                      @ fmt_v_strings lines\<rparr>
        else if \<not> prefix successLine (lines ! 0) then
          ll\<lparr>Error := ''incorrect response (first line needs to be SUCCESS): ''
                      @ fmt_v_strings lines\<rparr>
        else processLines ll (drop 1 lines))"

text \<open>
  What the list decoder is to make of one line that is not empty: the line is valid when
  it splits into exactly two fields on \<open>" | "\<close> and the second is an unsigned decimal
  integer that fits in 64 bits; a valid line gives \<open>line_item\<close>, any other the error
  \<open>line_error\<close>. They state the properties below and are not part of the program.
\<close>

definition valid_line :: "string \<Rightarrow> bool" where
  "valid_line l =
     (length (Split l '' | '') = 2
      \<and> isNumeral (Split l '' | '' ! 1) \<and> decVal (Split l '' | '' ! 1) < 2 ^ 64)"

definition line_item :: "string \<Rightarrow> LogListItem" where
  "line_item l =
     \<lparr>Filename = Split l '' | '' ! 0,
      Size = of_nat (decVal (Split l '' | '' ! 1)),
      PrintedSize = ByteCount (of_nat (decVal (Split l '' | '' ! 1)))\<rparr>"

definition line_error :: "string \<Rightarrow> string" where
  "line_error l =
     (if length (Split l '' | '') \<noteq> 2
      then ''incorrect response line (need to have 2 terms divided by |): '' @ l
      else ''incorrect size: '' @ Split l '' | '' ! 1)"

definition LogPart_processResponse :: "string \<Rightarrow> LogPart \<Rightarrow> string \<Rightarrow> bool \<Rightarrow> LogPart" where
  "LogPart_processResponse successLine lp result success =
     (if \<not> success then lp\<lparr>SuccessP := False, ErrorP := result\<rparr>
      else
        let lines = Split result [newline] in
        lp\<lparr>SuccessP := True,
           Lines := (if 1 \<le> length lines \<and> prefix successLine (lines ! 0)
                     then drop 1 lines else lines)\<rparr>)"

subsection \<open>The seekable reader\<close>

text \<open>
  \<open>LogReader\<close>: the fields \<open>requestChannel\<close> and \<open>ctx\<close> are the reader's two links to
  its environment, which is the argument \<open>env\<close> of \<open>Read\<close> below. The field \<open>total\<close> is
  \<open>total_size\<close> here.
\<close>

record LogReader =
  filename :: string
  total_size :: uint64
  offset :: uint64

text \<open>
  What one iteration of the loop of \<open>Read\<close> finds: whether \<open>lr.ctx.Done()\<close> is ready,
  and the state of the request that iteration would lock and decode. The request is
  shared with the dispatcher, which updates it in place between iterations, so the
  environment of a call is a sequence of such observations, one for every iteration
  the loop may reach.
\<close>

record poll =
  ctxDone :: bool
  snapshot :: NodeRequest

datatype ReadError = Interrupted | EOF | Errorf string

text \<open>
  How the loop ends: by the \<open>return\<close> under \<open>case <-lr.ctx.Done()\<close>, or with
  \<open>nodeRequest = nil\<close> after a decode with \<open>clear\<close>, keeping the \<open>total\<close>, \<open>part\<close> and
  \<open>errStr\<close> of that decode.
\<close>

datatype loop_exit = Cancelled | Cleared uint64 string string

text \<open>
  The loop \<open>for nodeRequest != nil\<close>, at its iteration \<open>i\<close> (from 0). Every iteration
  before \<open>i\<close> has decoded once and slept once (\<open>time.Sleep(100 * time.Millisecond)\<close>),
  so an exit at iteration \<open>i\<close> comes after \<open>i\<close> sleeps. The loop has no bound of its
  own: \<open>None\<close> is a loop that never exits.
\<close>

partial_function (option) Read_loop :: "(nat \<Rightarrow> poll) \<Rightarrow> uint64 \<Rightarrow> nat \<Rightarrow> (loop_exit \<times> nat) option" where
  "Read_loop env off i =
     (if ctxDone (env i) then Some (Cancelled, i)
      else (case parseLogPart (snapshot (env i)) off of
              (clear, toN, totalN, part, errStr) \<Rightarrow>
                if clear then Some (Cleared totalN part errStr, i)
                else Read_loop env off (Suc i)))"

text \<open>
  What a call of \<open>Read\<close> leaves and returns: the reader, the caller's buffer \<open>p\<close>, the
  results \<open>n\<close> and \<open>err\<close> (\<open>None\<close> is \<open>nil\<close>), and what the call did meanwhile: how
  often it slept and how often it called \<open>parseLogPart\<close>.
\<close>

record ReadResult =
  reader :: LogReader
  buffer :: string
  count :: nat
  error :: "ReadError option"
  sleeps :: nat
  decodes :: nat

text \<open>
  \<open>Read\<close>. The request it creates and sends on \<open>lr.requestChannel\<close> is the one whose
  states \<open>env\<close> lists (the send itself is taken not to block, as the spec asks of the
  channel). The error \<open>fmt.Errorf(errStr)\<close> is kept as \<open>Errorf errStr\<close>, with \<open>errStr\<close>
  the format it is built from. \<open>copy(p, part)\<close> writes the first
  \<open>min(len(p), len(part))\<close> bytes of \<open>part\<close> over the start of \<open>p\<close>.
\<close>

definition Read :: "(nat \<Rightarrow> poll) \<Rightarrow> LogReader \<Rightarrow> string \<Rightarrow> ReadResult option" where
  "Read env lr p =
     (case Read_loop env (offset lr) 0 of
        None \<Rightarrow> None
      | Some (Cancelled, k) \<Rightarrow>
          Some \<lparr>reader = lr, buffer = p, count = 0, error = Some Interrupted,
                sleeps = k, decodes = k\<rparr>
      | Some (Cleared totalN part errStr, k) \<Rightarrow>
          if errStr \<noteq> [] then
            Some \<lparr>reader = lr, buffer = p, count = 0, error = Some (Errorf errStr),
                  sleeps = k, decodes = Suc k\<rparr>
          else
            let copied = min (length p) (length part);
                p' = take copied part @ drop copied p;
                lr' = lr\<lparr>total_size := totalN, offset := offset lr + of_nat copied\<rparr>
            in Some \<lparr>reader = lr', buffer = p', count = copied,
                     error = (if offset lr' = totalN then Some EOF else None),
                     sleeps = k, decodes = Suc k\<rparr>)"

text \<open>
  The polls at which the loop can end, and the first of them.
\<close>

definition terminal :: "(nat \<Rightarrow> poll) \<Rightarrow> uint64 \<Rightarrow> nat \<Rightarrow> bool" where
  "terminal env off k = (ctxDone (env k) \<or> fst (parseLogPart (snapshot (env k)) off))"

definition first_terminal :: "(nat \<Rightarrow> poll) \<Rightarrow> uint64 \<Rightarrow> nat \<Rightarrow> bool" where
  "first_terminal env off k = (terminal env off k \<and> (\<forall>j<k. \<not> terminal env off j))"

text \<open>
  The exit of the loop at iteration \<open>k\<close>, read from the observation \<open>env k\<close>.
\<close>

definition exit_at :: "(nat \<Rightarrow> poll) \<Rightarrow> uint64 \<Rightarrow> nat \<Rightarrow> loop_exit" where
  "exit_at env off k =
     (if ctxDone (env k) then Cancelled
      else (case parseLogPart (snapshot (env k)) off of
              (clear, toN, totalN, part, errStr) \<Rightarrow> Cleared totalN part errStr))"

text \<open>
  \<open>Seek\<close>, with the constants of package \<open>io\<close>; any other \<open>whence\<close> falls through the
  \<open>switch\<close>. It returns \<open>int64(lr.offset)\<close> and \<open>nil\<close>.
\<close>

definition SeekStart :: int where "SeekStart = 0"
definition SeekCurrent :: int where "SeekCurrent = 1"
definition SeekEnd :: int where "SeekEnd = 2"

definition Seek :: "LogReader \<Rightarrow> int64 \<Rightarrow> int \<Rightarrow> LogReader \<times> int64 \<times> ReadError option" where
  "Seek lr off whence =
     (let lr' =
        (if whence = SeekStart then lr\<lparr>offset := off\<rparr>
         else if whence = SeekCurrent then lr\<lparr>offset := offset lr + off\<rparr>
         else if whence = SeekEnd then
           (if 0 < total_size lr then lr\<lparr>offset := total_size lr + off\<rparr>
            else lr\<lparr>offset := 0\<rparr>)
         else lr)
      in (lr', offset lr', None))"

subsection \<open>Concrete requests, readers and environments\<close>

definition chunk_0_4 :: NodeRequest where
  "chunk_0_4 =
     \<lparr>url = ''/logs/read?file=erigon.log&offset=0\<newline>'', served = True,
      response = ''SUCCESS: 0-4/10\<newline>ABCD'', err = [], retries = 0\<rparr>"

definition chunk_total_overflow :: NodeRequest where
  "chunk_total_overflow =
     \<lparr>url = ''/logs/read?file=erigon.log&offset=0\<newline>'', served = True,
      response = ''SUCCESS: 0-4/18446744073709551616\<newline>ABCD'', err = [], retries = 0\<rparr>"

definition chunk_6_10 :: NodeRequest where
  "chunk_6_10 =
     \<lparr>url = ''/logs/read?file=erigon.log&offset=6\<newline>'', served = True,
      response = ''SUCCESS: 6-10/10\<newline>WXYZ'', err = [], retries = 0\<rparr>"

definition chunk_stale :: NodeRequest where
  "chunk_stale =
     \<lparr>url = ''/logs/read?file=erigon.log&offset=6\<newline>'', served = True,
      response = ''SUCCESS: 0-4/10\<newline>ABCD'', err = [], retries = 16\<rparr>"

definition chunk_from_overflow :: NodeRequest where
  "chunk_from_overflow =
     \<lparr>url = ''/logs/read?file=erigon.log&offset=0\<newline>'', served = True,
      response = ''SUCCESS: 99999999999999999999-5/10\<newline>X'', err = [], retries = 16\<rparr>"

definition unserved :: NodeRequest where
  "unserved =
     \<lparr>url = ''/logs/read?file=erigon.log&offset=0\<newline>'', served = False,
      response = [], err = [], retries = 0\<rparr>"

definition failing_3 :: NodeRequest where
  "failing_3 =
     \<lparr>url = ''/logs/read?file=erigon.log&offset=0\<newline>'', served = True,
      response = [], err = ''connection refused'', retries = 3\<rparr>"

definition failed_16 :: NodeRequest where
  "failed_16 =
     \<lparr>url = ''/logs/read?file=erigon.log&offset=0\<newline>'', served = True,
      response = [], err = ''connection refused'', retries = 16\<rparr>"

definition chunk_0_4_of_5000 :: NodeRequest where
  "chunk_0_4_of_5000 =
     \<lparr>url = ''/logs/read?file=erigon.log&offset=0\<newline>'', served = True,
      response = ''SUCCESS: 0-4/5000\<newline>ABCD'', err = [], retries = 0\<rparr>"

definition chunk_no_marker :: NodeRequest where
  "chunk_no_marker =
     \<lparr>url = ''/logs/read?file=erigon.log&offset=0\<newline>'', served = True,
      response = ''FAILURE\<newline>ABCD'', err = [], retries = 16\<rparr>"

definition ll_0 :: LogList where
  "ll_0 = \<lparr>Success = False, Error = [], SessionName = ''node1'', List = []\<rparr>"

definition lp_0 :: LogPart where
  "lp_0 = \<lparr>SuccessP = False, ErrorP = [], Lines = []\<rparr>"

definition list_response_bad_size :: string where
  "list_response_bad_size = ''SUCCESS\<newline>erigon.log | 2048\<newline>bad.log | 12x\<newline>''"

definition list_response_bad_split :: string where
  "list_response_bad_split = ''SUCCESS\<newline>erigon.log | 2048\<newline>broken line\<newline>rest.log | 1\<newline>''"

definition lr_0 :: LogReader where
  "lr_0 = \<lparr>filename = ''erigon.log'', total_size = 0, offset = 0\<rparr>"

definition lr_6 :: LogReader where
  "lr_6 = \<lparr>filename = ''erigon.log'', total_size = 10, offset = 6\<rparr>"

text \<open>
  Environments: a request served with a chunk at the second poll; one that stays
  unserved; one that stays served with an error at attempt 3; a call entered with the
  cancellation signal set; a request served at the second poll with a chunk of another
  offset.
\<close>

definition env_6_10 :: "nat \<Rightarrow> poll" where
  "env_6_10 i = \<lparr>ctxDone = False, snapshot = (if i = 0 then unserved else chunk_6_10)\<rparr>"

definition env_5000 :: "nat \<Rightarrow> poll" where
  "env_5000 i = \<lparr>ctxDone = False, snapshot = chunk_0_4_of_5000\<rparr>"




definition env_stale :: "nat \<Rightarrow> poll" where
  "env_stale i = \<lparr>ctxDone = False, snapshot = (if i = 0 then unserved else chunk_stale)\<rparr>"

section \<open>Properties\<close>

subsection \<open>Library functions\<close>

lemma IndexByte_first:
  "c \<notin> set pre \<Longrightarrow> IndexByte (pre @ c # rest) c = Some (length pre)"
  by (induction pre) auto

lemma IndexByte_None: "c \<notin> set s \<Longrightarrow> IndexByte s c = None"
  by (induction s) auto

lemma IndexByte_Some:
  "IndexByte s c = Some i \<Longrightarrow> i < length s \<and> s ! i = c \<and> c \<notin> set (take i s)"
proof (induction s arbitrary: i)
  case Nil
  then show ?case by simp
next
  case (Cons x xs)
  then show ?case by (auto split: if_splits)
qed

lemma IndexByte_split:
  assumes "IndexByte s c = Some i"
  shows "s = take i s @ c # drop (i + 1) s \<and> c \<notin> set (take i s)"
proof -
  from IndexByte_Some [OF assms] have "i < length s" "s ! i = c" "c \<notin> set (take i s)" by auto
  then show ?thesis using id_take_nth_drop [of i s] by simp
qed

lemma foldl_dec_ge: "n \<le> foldl (\<lambda>n c. n * 10 + digitVal c) n s"
proof (induction s arbitrary: n)
  case Nil
  then show ?case by simp
next
  case (Cons c cs)
  have "n \<le> n * 10 + digitVal c" by simp
  also have "\<dots> \<le> foldl (\<lambda>n c. n * 10 + digitVal c) (n * 10 + digitVal c) cs"
    by (rule Cons.IH)
  finally show ?case by simp
qed

text \<open>
  On digits, the loop of \<open>ParseUint\<close> computes the decimal value, and reports a range
  error exactly when that value does not fit in 64 bits.
\<close>

lemma ParseUint_loop_digits:
  "list_all isDigit s \<Longrightarrow> n \<le> maxUint64 \<Longrightarrow>
   ParseUint_loop n s =
     (if foldl (\<lambda>n c. n * 10 + digitVal c) n s \<le> maxUint64
      then Inr (foldl (\<lambda>n c. n * 10 + digitVal c) n s) else Inl ErrRange)"
proof (induction s arbitrary: n)
  case Nil
  then show ?case by simp
next
  case (Cons c cs)
  let ?n1 = "n * 10 + digitVal c"
  have ge: "?n1 \<le> foldl (\<lambda>n c. n * 10 + digitVal c) ?n1 cs" by (rule foldl_dec_ge)
  show ?case
  proof (cases "maxUint64 div 10 + 1 \<le> n")
    case True
    then have "maxUint64 < ?n1" by (simp add: maxUint64_def)
    with ge True Cons.prems show ?thesis by simp
  next
    case False
    show ?thesis
    proof (cases "maxUint64 < ?n1")
      case True
      with ge False Cons.prems show ?thesis by simp
    next
      case b: False
      with False Cons.prems Cons.IH [of ?n1] show ?thesis by simp
    qed
  qed
qed

lemma ParseUint_numeral:
  "isNumeral s \<Longrightarrow>
   ParseUint s = (if decVal s < 2 ^ 64 then Inr (of_nat (decVal s)) else Inl ErrRange)"
  by (auto simp: ParseUint_def isNumeral_def decVal_def ParseUint_loop_digits maxUint64_def)

lemma ParseUint_loop_nondigit:
  "\<not> list_all isDigit s \<Longrightarrow> \<exists>e. ParseUint_loop n s = Inl e"
  by (induction s arbitrary: n) auto

lemma ParseUint_Inr_iff:
  "ParseUint s = Inr v \<longleftrightarrow> isNumeral s \<and> decVal s < 2 ^ 64 \<and> v = of_nat (decVal s)"
proof (cases "isNumeral s")
  case True
  then show ?thesis by (auto simp: ParseUint_numeral)
next
  case False
  then have "s = [] \<or> \<not> list_all isDigit s" by (auto simp: isNumeral_def)
  then have "\<exists>e. ParseUint s = Inl e"
    using ParseUint_loop_nondigit [of s 0] by (auto simp: ParseUint_def)
  with False show ?thesis by auto
qed

lemma uint_of_sint: "uint (b :: 64 word) = sint b mod 2 ^ 64"
  by (simp add: uint_sint take_bit_eq_mod)

lemma uint_add_sint: "uint (a + b :: 64 word) = (uint a + sint b) mod 2 ^ 64"
proof -
  have "uint (a + b) = (uint a + uint b) mod 2 ^ 64" by (simp add: uint_word_ariths)
  also have "\<dots> = (uint a + sint b mod 2 ^ 64) mod 2 ^ 64" by (simp only: uint_of_sint)
  also have "\<dots> = (uint a + sint b) mod 2 ^ 64" by (simp only: mod_add_right_eq)
  finally show ?thesis .
qed

lemma Split_not_Nil: "Split s sep \<noteq> []"
  by (induction s sep rule: Split.induct) (auto split: list.splits)

lemma length_Split_char: "length (Split s [c]) = Suc (length (filter (\<lambda>x. x = c) s))"
proof (induction s)
  case Nil
  then show ?case by simp
next
  case (Cons x xs)
  show ?case
  proof (cases "x = c")
    case True
    with Cons show ?thesis by simp
  next
    case False
    with Cons Split_not_Nil [of xs "[c]"] show ?thesis
      by (cases "Split xs [c]") auto
  qed
qed

lemma Split_char_none: "c \<notin> set s \<Longrightarrow> Split s [c] = [s]"
proof (induction s)
  case Nil
  then show ?case by simp
next
  case (Cons x xs)
  then show ?case by simp
qed

lemma length_Split_lt_2: "length (Split s [c]) < 2 \<longleftrightarrow> c \<notin> set s"
  by (auto simp: length_Split_char filter_empty_conv)

subsection \<open>The unit letter of a printed size\<close>

lemma MBToGB_loop_exp:
  "n < 1024 ^ Suc k \<Longrightarrow> snd (MBToGB_loop n dv e) \<le> e + k"
proof (induction k arbitrary: n dv e)
  case 0
  then show ?case by (simp add: MBToGB_loop.simps)
next
  case (Suc k)
  show ?case
  proof (cases "1024 \<le> n")
    case True
    from Suc.prems have "n div 1024 < 1024 ^ Suc k"
      by (simp add: less_mult_imp_div_less)
    from Suc.IH [OF this, of "dv * 1024" "e + 1"] True show ?thesis
      by (subst MBToGB_loop.simps) simp
  next
    case False
    then show ?thesis by (simp add: MBToGB_loop.simps)
  qed
qed

lemma MBToGB_exp_in_range: "snd (MBToGB b) < length ''KMGTPE''"
proof (cases "unat b < 1024")
  case True
  then show ?thesis by (simp add: MBToGB_def)
next
  case False
  have "unat b < 2 ^ 64" using unsigned_less [of b, where 'a = nat] by simp
  then have "unat b div 1024 < 1024 ^ Suc 5" by simp
  from MBToGB_loop_exp [OF this, of 1024 0] False show ?thesis
    by (cases "MBToGB_loop (unat b div 1024) 1024 0") (simp add: MBToGB_def)
qed

subsection \<open>The pattern of the first line\<close>

lemma takeWhile_digits_stop:
  "list_all isDigit ds \<Longrightarrow> \<not> isDigit c \<Longrightarrow> takeWhile isDigit (ds @ c # rest) = ds"
  by (induction ds) auto

lemma dropWhile_digits_stop:
  "list_all isDigit ds \<Longrightarrow> \<not> isDigit c \<Longrightarrow> dropWhile isDigit (ds @ c # rest) = c # rest"
  by (induction ds) auto

lemma not_digit_minus: "\<not> isDigit (CHR ''-'')"
  by (simp add: isDigit_def)

lemma not_digit_slash: "\<not> isDigit (CHR ''/'')"
  by (simp add: isDigit_def)

lemma not_digit_newline: "\<not> isDigit newline"
  by (simp add: isDigit_def newline_def)

lemma numeral_no_newline: "list_all isDigit s \<Longrightarrow> newline \<notin> set s"
  using not_digit_newline by (auto simp: list_all_iff)

lemma takeWhile_first_line:
  "c \<notin> set line \<Longrightarrow> takeWhile (\<lambda>x. x \<noteq> c) (line @ c # rest) = line"
  by (induction line) auto

lemma logReadFirstLine_match:
  assumes "isNumeral f" "isNumeral t" "isNumeral tot"
  shows "logReadFirstLine (''SUCCESS: '' @ f @ ''-'' @ t @ ''/'' @ tot) = Some (f, t, tot)"
proof -
  from assms have d: "list_all isDigit f" "list_all isDigit t" "list_all isDigit tot"
    and n: "f \<noteq> []" "t \<noteq> []" "tot \<noteq> []"
    by (simp_all add: isNumeral_def)
  have t1: "takeWhile isDigit (f @ CHR ''-'' # t @ CHR ''/'' # tot) = f"
    and d1: "dropWhile isDigit (f @ CHR ''-'' # t @ CHR ''/'' # tot) = CHR ''-'' # t @ CHR ''/'' # tot"
    using d(1) not_digit_minus by (simp_all add: takeWhile_digits_stop dropWhile_digits_stop)
  have t2: "takeWhile isDigit (t @ CHR ''/'' # tot) = t"
    and d2: "dropWhile isDigit (t @ CHR ''/'' # tot) = CHR ''/'' # tot"
    using d(2) not_digit_slash by (simp_all add: takeWhile_digits_stop dropWhile_digits_stop)
  have t3n: "takeWhile isDigit tot \<noteq> []" using n(3) d(3) by (cases tot) auto
  show ?thesis
    using n d t3n by (simp add: logReadFirstLine_def t1 d1 t2 d2 list_all_iff Let_def)
qed

lemma logReadFirstLine_Some:
  assumes "logReadFirstLine line = Some (a, b, c)"
  shows "line = ''SUCCESS: '' @ a @ ''-'' @ b @ ''/'' @ c \<and> isNumeral a \<and> isNumeral b \<and> isNumeral c"
proof -
  from assms have p: "prefix ''SUCCESS: '' line"
    by (auto simp: logReadFirstLine_def split: if_splits)
  then obtain r0 where line: "line = ''SUCCESS: '' @ r0" by (auto simp: prefix_def)
  from assms line obtain r1' where
    a: "a = takeWhile isDigit r0" "a \<noteq> []" and r1: "dropWhile isDigit r0 = CHR ''-'' # r1'"
    and rest1: "(let m2 = takeWhile isDigit r1'; r2 = dropWhile isDigit r1'
         in if m2 = [] then None
            else (case r2 of [] \<Rightarrow> None
                  | c2 # r2' \<Rightarrow> if c2 \<noteq> CHR ''/'' then None
                     else let m3 = takeWhile isDigit r2'; r3 = dropWhile isDigit r2'
                          in if m3 = [] \<or> r3 \<noteq> [] then None else Some (a, m2, m3))) = Some (a, b, c)"
    by (auto simp: logReadFirstLine_def Let_def split: if_splits list.splits)
  from rest1 obtain r2' where
    b: "b = takeWhile isDigit r1'" "b \<noteq> []" and r2: "dropWhile isDigit r1' = CHR ''/'' # r2'"
    and c: "c = takeWhile isDigit r2'" "c \<noteq> []" and r3: "dropWhile isDigit r2' = []"
    by (auto simp: Let_def split: if_splits list.splits)
  have "r0 = a @ CHR ''-'' # r1'" using a(1) r1 takeWhile_dropWhile_id [of isDigit r0] by simp
  moreover have "r1' = b @ CHR ''/'' # r2'" using b(1) r2 takeWhile_dropWhile_id [of isDigit r1'] by simp
  moreover have "r2' = c" by (metis append_Nil2 takeWhile_dropWhile_id c(1) r3)
  moreover have "list_all isDigit a" "list_all isDigit b" "list_all isDigit c"
    using a(1) b(1) c(1) by (auto simp: list_all_iff dest: set_takeWhileD)
  ultimately show ?thesis using line a(2) b(2) c(2) by (simp add: isNumeral_def)
qed

subsection \<open>The byte-chunk decoder\<close>

lemma parseLogPart_line:
  assumes "served nr" and "err nr = []"
    and "response nr = line @ newline # payload" and "newline \<notin> set line"
    and "logReadFirstLine line = Some (f, t, tot)"
    and "ParseUint f = Inr off" and "ParseUint t = Inr a" and "ParseUint tot = Inr b"
  shows "parseLogPart nr off = (True, a, b, payload, [])"
proof -
  have ix: "IndexByte (response nr) newline = Some (length line)"
    unfolding assms(3) using assms(4) by (rule IndexByte_first)
  have tk: "take (length line) (response nr) = line" unfolding assms(3) by simp
  have dr: "drop (length line + 1) (response nr) = payload" unfolding assms(3) by simp
  show ?thesis
    unfolding parseLogPart_def ix using assms(1,2,5-8) dr by (simp add: tk)
qed

lemma parseLogPart_err_field:
  "served nr \<Longrightarrow> err nr \<noteq> [] \<Longrightarrow> parseLogPart nr off = (16 \<le> retries nr, 0, 0, [], err nr)"
  by (simp add: parseLogPart_def)

lemma parseLogPart_no_line:
  "served nr \<Longrightarrow> err nr = [] \<Longrightarrow> newline \<notin> set (response nr) \<Longrightarrow>
   parseLogPart nr off =
     (16 \<le> retries nr, 0, 0, [], ''could not find first line in log part response'')"
  by (simp add: parseLogPart_def IndexByte_None)

lemma parseLogPart_bad_line:
  assumes "served nr" and "err nr = []"
    and "response nr = line @ newline # rest" and "newline \<notin> set line"
    and "logReadFirstLine line = None"
  shows "parseLogPart nr off =
     (16 \<le> retries nr, 0, 0, [],
      ''first line needs to have format SUCCESS: from-to/total, was ['' @ line @ ''n'')"
proof -
  have ix: "IndexByte (response nr) newline = Some (length line)"
    unfolding assms(3) using assms(4) by (rule IndexByte_first)
  have tk: "take (length line) (response nr) = line" unfolding assms(3) by simp
  show ?thesis
    unfolding parseLogPart_def ix using assms(1,2,5) by (simp add: tk)
qed

lemma parseLogPart_mismatch_line:
  assumes "served nr" and "err nr = []"
    and "response nr = line @ newline # payload" and "newline \<notin> set line"
    and "logReadFirstLine line = Some (f, t, tot)"
    and "ParseUint f = Inr fromN" and "fromN \<noteq> off"
  shows "parseLogPart nr off =
     (16 \<le> retries nr, 0, 0, [],
      ''Unexpected from '' @ fmt_d (unat fromN) @ '', wanted '' @ fmt_d (unat off))"
proof -
  have ix: "IndexByte (response nr) newline = Some (length line)"
    unfolding assms(3) using assms(4) by (rule IndexByte_first)
  have tk: "take (length line) (response nr) = line" unfolding assms(3) by simp
  show ?thesis
    unfolding parseLogPart_def ix using assms(1,2,5-7) by (simp add: tk)
qed

text \<open>A served request decodes to the success of a well-formed chunk or to a gated error.\<close>

lemma parseLogPart_served_cases:
  assumes "served nr"
  shows "(\<exists>f t tot payload.
            err nr = []
            \<and> response nr = ''SUCCESS: '' @ f @ ''-'' @ t @ ''/'' @ tot @ newline # payload
            \<and> isNumeral f \<and> isNumeral t \<and> isNumeral tot
            \<and> decVal f < 2 ^ 64 \<and> decVal t < 2 ^ 64 \<and> decVal tot < 2 ^ 64
            \<and> of_nat (decVal f) = off
            \<and> parseLogPart nr off = (True, of_nat (decVal t), of_nat (decVal tot), payload, []))
         \<or> (\<exists>e. e \<noteq> [] \<and> parseLogPart nr off = (16 \<le> retries nr, 0, 0, [], e))"
proof (cases "err nr = []")
  case False
  with assms show ?thesis by (simp add: parseLogPart_def)
next
  case noerr: True
  show ?thesis
  proof (cases "IndexByte (response nr) newline")
    case None
    with assms noerr show ?thesis by (simp add: parseLogPart_def)
  next
    case (Some i)
    define line where "line = take i (response nr)"
    define payload where "payload = drop (i + 1) (response nr)"
    from IndexByte_split [OF Some]
    have resp: "response nr = line @ newline # payload" and nl: "newline \<notin> set line"
      by (simp_all add: line_def payload_def)
    show ?thesis
    proof (cases "logReadFirstLine line")
      case None
      from parseLogPart_bad_line [OF assms noerr resp nl None, of off] show ?thesis by simp
    next
      case (Some m)
      obtain f t tot where m: "m = (f, t, tot)" by (cases m) auto
      from Some m have match: "logReadFirstLine line = Some (f, t, tot)" by simp
      from logReadFirstLine_Some [OF match]
      have line: "line = ''SUCCESS: '' @ f @ ''-'' @ t @ ''/'' @ tot"
        and nf: "isNumeral f" and nt: "isNumeral t" and ntot: "isNumeral tot" by auto
      have ix: "IndexByte (response nr) newline = Some (length line)"
        unfolding resp using nl by (rule IndexByte_first)
      have tk: "take (length line) (response nr) = line" unfolding resp by simp
      have dr: "drop (length line + 1) (response nr) = payload" unfolding resp by simp
      show ?thesis
      proof (cases "decVal f < 2 ^ 64 \<and> decVal t < 2 ^ 64 \<and> decVal tot < 2 ^ 64
                    \<and> of_nat (decVal f) = off")
        case True
        then have "parseLogPart nr off = (True, of_nat (decVal t), of_nat (decVal tot), payload, [])"
          using parseLogPart_line [OF assms noerr resp nl match, of off "of_nat (decVal t)" "of_nat (decVal tot)"]
            nf nt ntot by (simp add: ParseUint_numeral)
        with True noerr resp line nf nt ntot show ?thesis by auto
      next
        case False
        have "\<exists>e. e \<noteq> [] \<and> parseLogPart nr off = (16 \<le> retries nr, 0, 0, [], e)"
          unfolding parseLogPart_def ix using assms noerr match False nf nt ntot
          by (auto simp: tk ParseUint_numeral Let_def)
        then show ?thesis ..
      qed
    qed
  qed
qed

lemma parseLogPart_no_marker:
  assumes "served nr" and "err nr = []" and "prefix m ''SUCCESS: ''"
    and "\<not> prefix m (takeWhile (\<lambda>c. c \<noteq> newline) (response nr))"
  shows "\<exists>e. e \<noteq> [] \<and> parseLogPart nr off = (16 \<le> retries nr, 0, 0, [], e)"
proof -
  from parseLogPart_served_cases [OF assms(1), of off]
  consider (ok) f t tot payload where
      "response nr = ''SUCCESS: '' @ f @ ''-'' @ t @ ''/'' @ tot @ newline # payload"
      "isNumeral f" "isNumeral t" "isNumeral tot"
    | (bad) "\<exists>e. e \<noteq> [] \<and> parseLogPart nr off = (16 \<le> retries nr, 0, 0, [], e)"
    by blast
  then show ?thesis
  proof cases
    case ok
    define line where "line = ''SUCCESS: '' @ f @ ''-'' @ t @ ''/'' @ tot"
    have resp: "response nr = line @ newline # payload" using ok(1) by (simp add: line_def)
    have nl: "newline \<notin> set line"
      using ok(2-4) numeral_no_newline [of f] numeral_no_newline [of t] numeral_no_newline [of tot]
      by (simp add: isNumeral_def newline_def line_def)
    have tw: "takeWhile (\<lambda>c. c \<noteq> newline) (response nr) = line"
      unfolding resp using nl by (rule takeWhile_first_line)
    have p: "prefix ''SUCCESS: '' line" by (simp add: line_def)
    from assms(3) p have "prefix m line" by (rule prefix_order.order_trans)
    with tw assms(4) show ?thesis by simp
  next
    case bad
    then show ?thesis .
  qed
qed


text \<open>The definitions that evaluate the decoder on a concrete request.\<close>

lemmas eval_defs = parseLogPart_def logReadFirstLine_def ParseUint_def isNumeral_def isDigit_def
  digitVal_def maxUint64_def newline_def NumError_Error_def NumError_text_def Let_def decVal_def

text \<open>
  C1, as amended. A served request with an empty error field, whose response is the
  line \<open>SUCCESS: <from>-<to>/<total>\<close>, a newline and the payload, where the three
  fields are unsigned decimal integers that fit in 64 bits and \<open><from>\<close> is the
  requested offset, decodes to \<open>clear = true\<close> (whatever the attempt count), the
  reported \<open><to>\<close> and \<open><total>\<close>, the bytes after the first newline as the payload,
  and the empty error string.
\<close>

theorem parseLogPart_valid:
  assumes "served nr" and "err nr = []"
    and "response nr = ''SUCCESS: '' @ f @ ''-'' @ t @ ''/'' @ tot @ newline # payload"
    and "isNumeral f" and "isNumeral t" and "isNumeral tot"
    and "decVal f < 2 ^ 64" and "decVal t < 2 ^ 64" and "decVal tot < 2 ^ 64"
    and "of_nat (decVal f) = off"
  shows "parseLogPart nr off = (True, of_nat (decVal t), of_nat (decVal tot), payload, [])"
proof -
  define line where "line = ''SUCCESS: '' @ f @ ''-'' @ t @ ''/'' @ tot"
  have resp: "response nr = line @ newline # payload" using assms(3) by (simp add: line_def)
  have nl: "newline \<notin> set line"
    using assms(4-6) numeral_no_newline [of f] numeral_no_newline [of t] numeral_no_newline [of tot]
    by (simp add: isNumeral_def newline_def line_def)
  have m: "logReadFirstLine line = Some (f, t, tot)"
    unfolding line_def using assms(4-6) by (rule logReadFirstLine_match)
  have pf: "ParseUint f = Inr off" using assms(4,7,10) by (simp add: ParseUint_numeral)
  have pt: "ParseUint t = Inr (of_nat (decVal t))" using assms(5,8) by (simp add: ParseUint_numeral)
  have ptot: "ParseUint tot = Inr (of_nat (decVal tot))" using assms(6,9) by (simp add: ParseUint_numeral)
  from assms(1,2) resp nl m pf pt ptot show ?thesis by (rule parseLogPart_line)
qed

text \<open>
  The theorem at the response \<open>"SUCCESS: 0-4/10\nABCD"\<close>, requested at offset 0.
\<close>

theorem parseLogPart_valid_witness:
  "served chunk_0_4 \<and> err chunk_0_4 = []
   \<and> response chunk_0_4 = ''SUCCESS: '' @ ''0'' @ ''-'' @ ''4'' @ ''/'' @ ''10'' @ newline # ''ABCD''
   \<and> isNumeral ''0'' \<and> isNumeral ''4'' \<and> isNumeral ''10''
   \<and> decVal ''0'' < 2 ^ 64 \<and> decVal ''4'' < 2 ^ 64 \<and> decVal ''10'' < 2 ^ 64
   \<and> (of_nat (decVal ''0'') :: uint64) = 0
   \<and> parseLogPart chunk_0_4 0 = (True, 4, 10, ''ABCD'', [])"
proof -
  have h1: "served chunk_0_4" and h2: "err chunk_0_4 = []"
    and h3: "response chunk_0_4 = ''SUCCESS: '' @ ''0'' @ ''-'' @ ''4'' @ ''/'' @ ''10'' @ newline # ''ABCD''"
    by (simp_all add: chunk_0_4_def newline_def)
  have h4: "isNumeral ''0''" and h5: "isNumeral ''4''" and h6: "isNumeral ''10''"
    by (simp_all add: isNumeral_def isDigit_def)
  have v0: "decVal ''0'' = 0" and v4: "decVal ''4'' = 4" and v10: "decVal ''10'' = 10"
    by (simp_all add: decVal_def digitVal_def)
  have h7: "decVal ''0'' < 2 ^ 64" and h8: "decVal ''4'' < 2 ^ 64" and h9: "decVal ''10'' < 2 ^ 64"
    by (simp_all add: v0 v4 v10)
  have h10: "(of_nat (decVal ''0'') :: uint64) = 0" by (simp add: v0)
  have "parseLogPart chunk_0_4 0 = (True, 4, 10, ''ABCD'', [])"
    using parseLogPart_valid [OF h1 h2 h3 h4 h5 h6 h7 h8 h9 h10] by (simp add: v4 v10)
  with h1 h2 h3 h4 h5 h6 h7 h8 h9 h10 show ?thesis by blast
qed

text \<open>
  C1 as stated fails where a field is an unsigned decimal integer of more than 64 bits:
  \<open>"SUCCESS: 0-4/18446744073709551616\nABCD"\<close> (the \<open><total>\<close> field is \<open>2 ^ 64\<close>),
  requested at offset 0, is not decoded as a success; \<open>ParseUint\<close> reports a range
  error, which is returned under the retry ceiling.
\<close>

theorem parseLogPart_total_overflow:
  "served chunk_total_overflow \<and> err chunk_total_overflow = []
   \<and> response chunk_total_overflow
       = ''SUCCESS: '' @ ''0'' @ ''-'' @ ''4'' @ ''/'' @ ''18446744073709551616'' @ newline # ''ABCD''
   \<and> isNumeral ''0'' \<and> isNumeral ''4'' \<and> isNumeral ''18446744073709551616''
   \<and> (of_nat (decVal ''0'') :: uint64) = 0
   \<and> parseLogPart chunk_total_overflow 0
       = (False, 0, 0, [],
          ''parsing total: strconv.ParseUint: parsing '' @ [CHR 0x22] @ ''18446744073709551616''
            @ [CHR 0x22] @ '': value out of range'')"
  by (simp add: chunk_total_overflow_def eval_defs)

subsection \<open>Errors of the byte-chunk decoder\<close>

text \<open>
  C3. For a served request, every outcome with an error string has \<open>clear\<close> true exactly
  when \<open>retries\<close> has reached 16, and returns no offsets and no payload. A non-empty
  error field is that error string; a response without a newline and a first line that
  does not match the pattern are the two decode errors of the source with their texts;
  and the only outcome without an error string is the one of a well-formed chunk at the
  requested offset, so non-numeric fields, fields out of range and an offset mismatch
  are errors under the same ceiling.
\<close>

theorem parseLogPart_error_gated:
  assumes "served nr" and "parseLogPart nr off = (clear, toN, totalN, part, errStr)"
  shows "(errStr \<noteq> [] \<longrightarrow> clear = (16 \<le> retries nr) \<and> toN = 0 \<and> totalN = 0 \<and> part = [])
     \<and> (err nr \<noteq> [] \<longrightarrow> errStr = err nr)
     \<and> (err nr = [] \<and> newline \<notin> set (response nr) \<longrightarrow>
          errStr = ''could not find first line in log part response'')
     \<and> (\<forall>line rest. err nr = [] \<and> response nr = line @ newline # rest \<and> newline \<notin> set line
            \<and> logReadFirstLine line = None \<longrightarrow>
          errStr = ''first line needs to have format SUCCESS: from-to/total, was ['' @ line @ ''n'')
     \<and> (errStr = [] \<longrightarrow>
          (\<exists>f t tot. response nr = ''SUCCESS: '' @ f @ ''-'' @ t @ ''/'' @ tot @ newline # part
             \<and> isNumeral f \<and> isNumeral t \<and> isNumeral tot
             \<and> decVal f < 2 ^ 64 \<and> decVal t < 2 ^ 64 \<and> decVal tot < 2 ^ 64
             \<and> of_nat (decVal f) = off))"
proof -
  have c1: "errStr \<noteq> [] \<longrightarrow> clear = (16 \<le> retries nr) \<and> toN = 0 \<and> totalN = 0 \<and> part = []"
    using parseLogPart_served_cases [OF assms(1), of off] assms(2) by auto
  have c2: "err nr \<noteq> [] \<longrightarrow> errStr = err nr"
    using parseLogPart_err_field [OF assms(1), of off] assms(2) by simp
  have c3: "err nr = [] \<and> newline \<notin> set (response nr) \<longrightarrow>
          errStr = ''could not find first line in log part response''"
    using parseLogPart_no_line [OF assms(1), of off] assms(2) by simp
  have c4: "\<forall>line rest. err nr = [] \<and> response nr = line @ newline # rest \<and> newline \<notin> set line
            \<and> logReadFirstLine line = None \<longrightarrow>
          errStr = ''first line needs to have format SUCCESS: from-to/total, was ['' @ line @ ''n''"
  proof (intro allI impI)
    fix line rest
    assume "err nr = [] \<and> response nr = line @ newline # rest \<and> newline \<notin> set line
            \<and> logReadFirstLine line = None"
    with parseLogPart_bad_line [OF assms(1), of line rest off] assms(2)
    show "errStr = ''first line needs to have format SUCCESS: from-to/total, was ['' @ line @ ''n''"
      by simp
  qed
  have c5: "errStr = [] \<longrightarrow>
          (\<exists>f t tot. response nr = ''SUCCESS: '' @ f @ ''-'' @ t @ ''/'' @ tot @ newline # part
             \<and> isNumeral f \<and> isNumeral t \<and> isNumeral tot
             \<and> decVal f < 2 ^ 64 \<and> decVal t < 2 ^ 64 \<and> decVal tot < 2 ^ 64
             \<and> of_nat (decVal f) = off)"
    using parseLogPart_served_cases [OF assms(1), of off] assms(2) by auto
  from c1 c2 c3 c4 c5 show ?thesis by blast
qed

text \<open>
  The theorem at a request served with the error \<open>connection refused\<close>: terminal at
  attempt 16, not terminal at attempt 3.
\<close>

theorem parseLogPart_error_gated_witness:
  "served failed_16 \<and> parseLogPart failed_16 0 = (True, 0, 0, [], ''connection refused'')
   \<and> retries failed_16 = 16 \<and> err failed_16 = ''connection refused''
   \<and> served failing_3 \<and> parseLogPart failing_3 0 = (False, 0, 0, [], ''connection refused'')
   \<and> retries failing_3 = 3 \<and> err failing_3 = ''connection refused''"
proof -
  have s16: "served failed_16" and s3: "served failing_3"
    by (simp_all add: failed_16_def failing_3_def)
  obtain c16 a16 b16 p16 e16 where r16: "parseLogPart failed_16 0 = (c16, a16, b16, p16, e16)"
    by (cases "parseLogPart failed_16 0") auto
  obtain c3 a3 b3 p3 e3 where r3: "parseLogPart failing_3 0 = (c3, a3, b3, p3, e3)"
    by (cases "parseLogPart failing_3 0") auto
  have f16: "retries failed_16 = 16" "err failed_16 = ''connection refused''"
    and f3: "retries failing_3 = 3" "err failing_3 = ''connection refused''"
    by (simp_all add: failed_16_def failing_3_def)
  from parseLogPart_error_gated [OF s16 r16] f16
  have "c16 = True \<and> a16 = 0 \<and> b16 = 0 \<and> p16 = [] \<and> e16 = ''connection refused''" by simp
  moreover from parseLogPart_error_gated [OF s3 r3] f3
  have "c3 = False \<and> a3 = 0 \<and> b3 = 0 \<and> p3 = [] \<and> e3 = ''connection refused''" by simp
  ultimately show ?thesis using s16 s3 r16 r3 f16 f3 by simp
qed

subsection \<open>The polling loop\<close>

lemma Read_loop_exit:
  "terminal env off i \<Longrightarrow> Read_loop env off i = Some (exit_at env off i, i)"
  by (subst Read_loop.simps) (auto simp: terminal_def exit_at_def split: prod.splits)

lemma Read_loop_step:
  "\<not> terminal env off i \<Longrightarrow> Read_loop env off i = Read_loop env off (Suc i)"
  by (subst Read_loop.simps) (auto simp: terminal_def split: prod.splits)

lemma Read_loop_reach:
  "terminal env off k \<Longrightarrow> i \<le> k \<Longrightarrow> (\<forall>j. i \<le> j \<and> j < k \<longrightarrow> \<not> terminal env off j) \<Longrightarrow>
   Read_loop env off i = Some (exit_at env off k, k)"
proof (induction "k - i" arbitrary: i)
  case 0
  then have "i = k" by simp
  with 0 show ?case by (simp add: Read_loop_exit)
next
  case (Suc d)
  then have lt: "i < k" by simp
  with Suc.prems have nt: "\<not> terminal env off i" by simp
  have "Read_loop env off (Suc i) = Some (exit_at env off k, k)"
  proof (rule Suc.hyps(1))
    show "d = k - Suc i" using Suc.hyps(2) by simp
    show "terminal env off k" by (rule Suc.prems(1))
    show "Suc i \<le> k" using lt by simp
    show "\<forall>j. Suc i \<le> j \<and> j < k \<longrightarrow> \<not> terminal env off j" using Suc.prems(3) by simp
  qed
  with nt show ?case by (simp add: Read_loop_step)
qed




lemma Read_loop_first:
  "first_terminal env off k \<Longrightarrow> Read_loop env off 0 = Some (exit_at env off k, k)"
  by (rule Read_loop_reach) (auto simp: first_terminal_def)



lemma first_terminal_env_6_10: "first_terminal env_6_10 6 1"
  by (simp add: first_terminal_def terminal_def env_6_10_def unserved_def chunk_6_10_def eval_defs)

lemma parseLogPart_chunk_6_10: "parseLogPart chunk_6_10 6 = (True, 10, 10, ''WXYZ'', [])"
  by (simp add: chunk_6_10_def eval_defs)

lemma first_terminal_env_stale: "first_terminal env_stale 6 1"
  by (simp add: first_terminal_def terminal_def env_stale_def unserved_def chunk_stale_def eval_defs)



subsection \<open>Read\<close>

text \<open>
  C2. When the loop of \<open>Read\<close> ends at a decode that reports success with total \<open>T\<close> and
  payload \<open>P\<close> (poll \<open>k\<close> is the first at which the loop can end, it is not cancelled
  there, and the decoder reports success there), \<open>Read\<close> copies the first
  \<open>min (length p) (length P)\<close> bytes of \<open>P\<close> over the start of the caller's buffer \<open>p\<close>,
  sets the reader's total to \<open>T\<close>, advances its offset by the copied count (in
  \<open>uint64\<close>), returns the copied count, and returns \<open>io.EOF\<close> with it exactly when the
  new offset equals \<open>T\<close>.
\<close>

theorem Read_success:
  assumes "first_terminal env (offset lr) k" and "\<not> ctxDone (env k)"
    and "parseLogPart (snapshot (env k)) (offset lr) = (True, toN, T, P, [])"
  shows "Read env lr p =
     Some \<lparr>reader = lr\<lparr>total_size := T, offset := offset lr + of_nat (min (length p) (length P))\<rparr>,
           buffer = take (min (length p) (length P)) P @ drop (min (length p) (length P)) p,
           count = min (length p) (length P),
           error = (if offset lr + of_nat (min (length p) (length P)) = T then Some EOF else None),
           sleeps = k, decodes = Suc k\<rparr>"
proof -
  have "exit_at env (offset lr) k = Cleared T P []"
    using assms(2,3) by (simp add: exit_at_def)
  with Read_loop_first [OF assms(1)]
  have "Read_loop env (offset lr) 0 = Some (Cleared T P [], k)" by simp
  then show ?thesis by (simp add: Read_def Let_def)
qed

text \<open>
  The theorem at the scenario of the spec: \<open>"SUCCESS: 6-10/10\nWXYZ"\<close>, requested at
  offset 6 into a buffer of 10 bytes and served at the second poll, gives 4 bytes and
  \<open>io.EOF\<close>.
\<close>

theorem Read_success_witness:
  "first_terminal env_6_10 (offset lr_6) 1 \<and> \<not> ctxDone (env_6_10 1)
   \<and> parseLogPart (snapshot (env_6_10 1)) (offset lr_6) = (True, 10, 10, ''WXYZ'', [])
   \<and> Read env_6_10 lr_6 ''0123456789'' =
        Some \<lparr>reader = \<lparr>filename = ''erigon.log'', total_size = 10, offset = 10\<rparr>,
              buffer = ''WXYZ456789'', count = 4, error = Some EOF, sleeps = 1, decodes = 2\<rparr>"
proof -
  have h1: "first_terminal env_6_10 (offset lr_6) 1"
    using first_terminal_env_6_10 by (simp add: lr_6_def)
  have h2: "\<not> ctxDone (env_6_10 1)" by (simp add: env_6_10_def)
  have h3: "parseLogPart (snapshot (env_6_10 1)) (offset lr_6) = (True, 10, 10, ''WXYZ'', [])"
    using parseLogPart_chunk_6_10 by (simp add: env_6_10_def lr_6_def)
  have "Read env_6_10 lr_6 ''0123456789'' =
        Some \<lparr>reader = \<lparr>filename = ''erigon.log'', total_size = 10, offset = 10\<rparr>,
              buffer = ''WXYZ456789'', count = 4, error = Some EOF, sleeps = 1, decodes = 2\<rparr>"
    using Read_success [OF h1 h2 h3, of "''0123456789''"] by (simp add: lr_6_def)
  with h1 h2 h3 show ?thesis by blast
qed

text \<open>
  C4, as amended. A served response with an empty error field whose first line matches
  the pattern, with a \<open><from>\<close> that fits in 64 bits and differs from the requested
  offset, decodes to the error \<open>Unexpected from <from>, wanted <offset>\<close>, which names
  both, with \<open>clear\<close> true exactly from attempt 16 on; nothing is corrected. A \<open>Read\<close>
  whose loop ends at such a response returns \<open>0\<close> and that error, and leaves the reader
  (its offset and its total) and the buffer as they were.
\<close>

theorem offset_mismatch:
  assumes "served nr" and "err nr = []"
    and "response nr = ''SUCCESS: '' @ f @ ''-'' @ t @ ''/'' @ tot @ newline # payload"
    and "isNumeral f" and "isNumeral t" and "isNumeral tot"
    and "decVal f < 2 ^ 64" and "of_nat (decVal f) \<noteq> off"
  shows "parseLogPart nr off =
           (16 \<le> retries nr, 0, 0, [],
            ''Unexpected from '' @ fmt_d (decVal f) @ '', wanted '' @ fmt_d (unat off))
     \<and> (first_terminal env off k \<and> \<not> ctxDone (env k) \<and> snapshot (env k) = nr \<and> offset lr = off \<longrightarrow>
          Read env lr p =
            Some \<lparr>reader = lr, buffer = p, count = 0,
                  error = Some (Errorf (''Unexpected from '' @ fmt_d (decVal f) @ '', wanted ''
                                          @ fmt_d (unat off))),
                  sleeps = k, decodes = Suc k\<rparr>)"
proof (intro conjI impI)
  define line where "line = ''SUCCESS: '' @ f @ ''-'' @ t @ ''/'' @ tot"
  have resp: "response nr = line @ newline # payload" using assms(3) by (simp add: line_def)
  have nl: "newline \<notin> set line"
    using assms(4-6) numeral_no_newline [of f] numeral_no_newline [of t] numeral_no_newline [of tot]
    by (simp add: isNumeral_def newline_def line_def)
  have m: "logReadFirstLine line = Some (f, t, tot)"
    unfolding line_def using assms(4-6) by (rule logReadFirstLine_match)
  have pf: "ParseUint f = Inr (of_nat (decVal f))" using assms(4,7) by (simp add: ParseUint_numeral)
  have un: "unat (of_nat (decVal f) :: uint64) = decVal f"
    using assms(7) by (simp add: unat_of_nat)
  from parseLogPart_mismatch_line [OF assms(1,2) resp nl m pf assms(8)] un
  show dec: "parseLogPart nr off =
           (16 \<le> retries nr, 0, 0, [],
            ''Unexpected from '' @ fmt_d (decVal f) @ '', wanted '' @ fmt_d (unat off))"
    by simp
  assume a: "first_terminal env off k \<and> \<not> ctxDone (env k) \<and> snapshot (env k) = nr \<and> offset lr = off"
  then have "terminal env off k" by (simp add: first_terminal_def)
  with a dec have clear: "16 \<le> retries nr" by (simp add: terminal_def)
  from a dec have "exit_at env off k =
      Cleared 0 [] (''Unexpected from '' @ fmt_d (decVal f) @ '', wanted '' @ fmt_d (unat off))"
    by (simp add: exit_at_def)
  with a Read_loop_first [of env off k]
  have "Read_loop env (offset lr) 0 =
      Some (Cleared 0 [] (''Unexpected from '' @ fmt_d (decVal f) @ '', wanted '' @ fmt_d (unat off)), k)"
    by simp
  then show "Read env lr p =
            Some \<lparr>reader = lr, buffer = p, count = 0,
                  error = Some (Errorf (''Unexpected from '' @ fmt_d (decVal f) @ '', wanted ''
                                          @ fmt_d (unat off))),
                  sleeps = k, decodes = Suc k\<rparr>"
    by (simp add: Read_def)
qed

text \<open>
  The theorem at the response \<open>"SUCCESS: 0-4/10\nABCD"\<close> of attempt 16, requested at
  offset 6 and decoded at the second poll.
\<close>

theorem offset_mismatch_witness:
  "served chunk_stale \<and> err chunk_stale = []
   \<and> response chunk_stale = ''SUCCESS: '' @ ''0'' @ ''-'' @ ''4'' @ ''/'' @ ''10'' @ newline # ''ABCD''
   \<and> isNumeral ''0'' \<and> isNumeral ''4'' \<and> isNumeral ''10''
   \<and> decVal ''0'' < 2 ^ 64 \<and> (of_nat (decVal ''0'') :: uint64) \<noteq> 6
   \<and> parseLogPart chunk_stale 6 = (True, 0, 0, [], ''Unexpected from 0, wanted 6'')
   \<and> first_terminal env_stale 6 1 \<and> \<not> ctxDone (env_stale 1) \<and> snapshot (env_stale 1) = chunk_stale
   \<and> offset lr_6 = 6
   \<and> Read env_stale lr_6 ''0123456789'' =
        Some \<lparr>reader = lr_6, buffer = ''0123456789'', count = 0,
              error = Some (Errorf ''Unexpected from 0, wanted 6''), sleeps = 1, decodes = 2\<rparr>"
proof -
  have h1: "served chunk_stale" and h2: "err chunk_stale = []"
    and h3: "response chunk_stale = ''SUCCESS: '' @ ''0'' @ ''-'' @ ''4'' @ ''/'' @ ''10'' @ newline # ''ABCD''"
    by (simp_all add: chunk_stale_def newline_def)
  have h4: "isNumeral ''0''" and h5: "isNumeral ''4''" and h6: "isNumeral ''10''"
    by (simp_all add: isNumeral_def isDigit_def)
  have v0: "decVal ''0'' = 0" by (simp add: decVal_def digitVal_def)
  have h7: "decVal ''0'' < 2 ^ 64" and h8: "(of_nat (decVal ''0'') :: uint64) \<noteq> 6"
    by (simp_all add: v0)
  have e: "first_terminal env_stale 6 1 \<and> \<not> ctxDone (env_stale 1) \<and> snapshot (env_stale 1) = chunk_stale
      \<and> offset lr_6 = 6"
    using first_terminal_env_stale by (simp add: env_stale_def lr_6_def)
  have f0: "fmt_d 0 = ''0''" and f6: "fmt_d 6 = ''6''" by (simp_all add: fmt_d.simps digitChar_def)
  have r: "retries chunk_stale = 16" by (simp add: chunk_stale_def)
  from offset_mismatch [OF h1 h2 h3 h4 h5 h6 h7 h8, of env_stale 1 lr_6 "''0123456789''"] e
  have "parseLogPart chunk_stale 6 = (True, 0, 0, [], ''Unexpected from 0, wanted 6'')
    \<and> Read env_stale lr_6 ''0123456789'' =
        Some \<lparr>reader = lr_6, buffer = ''0123456789'', count = 0,
              error = Some (Errorf ''Unexpected from 0, wanted 6''), sleeps = 1, decodes = 2\<rparr>"
    by (simp add: v0 f0 f6 r)
  with h1 h2 h3 h4 h5 h6 h7 h8 e show ?thesis by blast
qed

text \<open>
  C4 as stated fails where \<open><from>\<close> does not fit in 64 bits: the response
  \<open>"SUCCESS: 99999999999999999999-5/10\nX"\<close>, requested at offset 0, reports a \<open><from>\<close>
  that differs from 0, and the error is the range error of \<open>ParseUint\<close>, which does not
  name the requested offset.
\<close>

theorem from_overflow_message:
  "served chunk_from_overflow \<and> err chunk_from_overflow = []
   \<and> response chunk_from_overflow
       = ''SUCCESS: '' @ ''99999999999999999999'' @ ''-'' @ ''5'' @ ''/'' @ ''10'' @ newline # ''X''
   \<and> isNumeral ''99999999999999999999'' \<and> decVal ''99999999999999999999'' \<noteq> 0
   \<and> parseLogPart chunk_from_overflow 0
       = (True, 0, 0, [],
          ''parsing from: strconv.ParseUint: parsing '' @ [CHR 0x22] @ ''99999999999999999999''
            @ [CHR 0x22] @ '': value out of range'')"
  by (simp add: chunk_from_overflow_def eval_defs)






subsection \<open>Seek\<close>

text \<open>
  C6. \<open>Seek\<close> sets the offset to the given offset (\<open>io.SeekStart\<close>), to the current
  offset plus the given one (\<open>io.SeekCurrent\<close>), to the total plus the given offset when
  the total is not zero and to 0 when it is (\<open>io.SeekEnd\<close>); the sums are those of the
  source, in 64 bits, so the new offset is the integer sum modulo \<open>2 ^ 64\<close>. It returns
  the new offset and never an error, for every \<open>whence\<close>, and it is a function of the
  reader alone. With a total of 5000, seeking from the end by -100 returns 4900.
\<close>

theorem Seek_contract:
  "Seek lr off SeekStart = (lr\<lparr>offset := off\<rparr>, off, None)
   \<and> Seek lr off SeekCurrent = (lr\<lparr>offset := offset lr + off\<rparr>, offset lr + off, None)
   \<and> (total_size lr \<noteq> 0 \<longrightarrow>
        Seek lr off SeekEnd = (lr\<lparr>offset := total_size lr + off\<rparr>, total_size lr + off, None))
   \<and> (total_size lr = 0 \<longrightarrow> Seek lr off SeekEnd = (lr\<lparr>offset := 0\<rparr>, 0, None))
   \<and> uint (offset (fst (Seek lr off SeekStart))) = sint off mod 2 ^ 64
   \<and> uint (offset (fst (Seek lr off SeekCurrent))) = (uint (offset lr) + sint off) mod 2 ^ 64
   \<and> (total_size lr \<noteq> 0 \<longrightarrow>
        uint (offset (fst (Seek lr off SeekEnd))) = (uint (total_size lr) + sint off) mod 2 ^ 64)
   \<and> snd (snd (Seek lr off whence)) = None
   \<and> fst (snd (Seek lr off whence)) = offset (fst (Seek lr off whence))
   \<and> (total_size lr = 5000 \<longrightarrow>
        fst (snd (Seek lr (- 100) SeekEnd)) = 4900 \<and> sint (fst (snd (Seek lr (- 100) SeekEnd))) = 4900)"
proof -
  have s: "Seek lr off SeekStart = (lr\<lparr>offset := off\<rparr>, off, None)"
    and c: "Seek lr off SeekCurrent = (lr\<lparr>offset := offset lr + off\<rparr>, offset lr + off, None)"
    and e: "total_size lr \<noteq> 0 \<longrightarrow>
        Seek lr off SeekEnd = (lr\<lparr>offset := total_size lr + off\<rparr>, total_size lr + off, None)"
    and z: "total_size lr = 0 \<longrightarrow> Seek lr off SeekEnd = (lr\<lparr>offset := 0\<rparr>, 0, None)"
    by (simp_all add: Seek_def SeekStart_def SeekCurrent_def SeekEnd_def Let_def word_greater_zero_iff)
  have ns: "uint (offset (fst (Seek lr off SeekStart))) = sint off mod 2 ^ 64"
    unfolding s by (simp add: uint_of_sint)
  have nc: "uint (offset (fst (Seek lr off SeekCurrent))) = (uint (offset lr) + sint off) mod 2 ^ 64"
    unfolding c by (simp add: uint_add_sint)
  have ne: "total_size lr \<noteq> 0 \<longrightarrow>
        uint (offset (fst (Seek lr off SeekEnd))) = (uint (total_size lr) + sint off) mod 2 ^ 64"
    using e by (simp add: uint_add_sint)
  have r: "snd (snd (Seek lr off whence)) = None"
    and o: "fst (snd (Seek lr off whence)) = offset (fst (Seek lr off whence))"
    by (simp_all add: Seek_def Let_def)
  have x: "total_size lr = 5000 \<longrightarrow>
        fst (snd (Seek lr (- 100) SeekEnd)) = 4900 \<and> sint (fst (snd (Seek lr (- 100) SeekEnd))) = 4900"
    by (simp add: Seek_def SeekStart_def SeekCurrent_def SeekEnd_def Let_def)
  from s c e z ns nc ne r o x show ?thesis by (intro conjI)
qed

text \<open>
  The theorem before the total is known (a total of 0), and after a \<open>Read\<close> of the
  response \<open>"SUCCESS: 0-4/5000\nABCD"\<close> has set the total to 5000.
\<close>

theorem Seek_contract_witness:
  "total_size lr_0 = 0 \<and> Seek lr_0 (- 100) SeekEnd = (lr_0, 0, None)
   \<and> (\<exists>r. Read env_5000 lr_0 ''0123'' = Some r \<and> total_size (reader r) = 5000
          \<and> total_size (reader r) \<noteq> 0
          \<and> Seek (reader r) (- 100) SeekEnd = ((reader r)\<lparr>offset := 4900\<rparr>, 4900, None))"
proof -
  have "terminal env_5000 0 0"
    by (simp add: terminal_def env_5000_def chunk_0_4_of_5000_def eval_defs)
  from Read_loop_exit [OF this]
  have "Read_loop env_5000 (offset lr_0) 0 = Some (Cleared 5000 ''ABCD'' [], 0)"
    by (simp add: exit_at_def lr_0_def env_5000_def chunk_0_4_of_5000_def eval_defs)
  then have r: "Read env_5000 lr_0 ''0123'' =
      Some \<lparr>reader = \<lparr>filename = ''erigon.log'', total_size = 5000, offset = 4\<rparr>,
            buffer = ''ABCD'', count = 4, error = None, sleeps = 0, decodes = 1\<rparr>"
    by (simp add: Read_def lr_0_def)
  let ?lr = "\<lparr>filename = ''erigon.log'', total_size = 5000, offset = 4\<rparr>"
  have z: "total_size lr_0 = 0" by (simp add: lr_0_def)
  have n: "total_size ?lr = 5000" "total_size ?lr \<noteq> 0" by simp_all
  from Seek_contract [of lr_0 "- 100" 0] z
  have a: "Seek lr_0 (- 100) SeekEnd = (lr_0, 0, None)" by (simp add: lr_0_def)
  from Seek_contract [of ?lr "- 100" 0] n
  have b: "Seek ?lr (- 100) SeekEnd = (?lr\<lparr>offset := 4900\<rparr>, 4900, None)" by simp
  from z a r n b show ?thesis by simp
qed

subsection \<open>The list decoder and the snippet decoder\<close>

lemma ParseUint_valid_line:
  "valid_line l \<Longrightarrow> ParseUint (Split l '' | '' ! 1) = Inr (of_nat (decVal (Split l '' | '' ! 1)))"
  by (simp add: valid_line_def ParseUint_Inr_iff)

lemma ParseUint_invalid_line:
  "\<not> valid_line l \<Longrightarrow> length (Split l '' | '') = 2 \<Longrightarrow> \<exists>e. ParseUint (Split l '' | '' ! 1) = Inl e"
  using ParseUint_Inr_iff [of "Split l '' | '' ! 1"]
  by (cases "ParseUint (Split l '' | '' ! 1)") (auto simp: valid_line_def)

lemma processLines_blank: "processLines ll ([] # ls) = processLines ll ls"
  by simp

lemma processLines_valid:
  "l \<noteq> [] \<Longrightarrow> valid_line l \<Longrightarrow>
   processLines ll (l # ls) = processLines (ll\<lparr>List := List ll @ [line_item l]\<rparr>) ls"
  using ParseUint_valid_line [of l]
  by (cases l) (simp_all add: Let_def valid_line_def line_item_def del: Split.simps)

lemma processLines_invalid:
  "l \<noteq> [] \<Longrightarrow> \<not> valid_line l \<Longrightarrow> processLines ll (l # ls) = ll\<lparr>Error := line_error l\<rparr>"
  using ParseUint_invalid_line [of l]
  by (cases l) (auto simp: Let_def line_error_def simp del: Split.simps)

lemma processLines_stop:
  assumes "\<forall>g\<in>set good. g = [] \<or> valid_line g" and "l \<noteq> []" and "\<not> valid_line l"
  shows "processLines ll (good @ l # rest) =
     ll\<lparr>List := List ll @ map line_item (filter (\<lambda>g. g \<noteq> []) good), Error := line_error l\<rparr>"
  using assms(1)
proof (induction good arbitrary: ll)
  case Nil
  with assms(2,3) show ?case by (simp add: processLines_invalid del: processLines.simps)
next
  case (Cons g gs)
  show ?case
  proof (cases "g = []")
    case True
    with Cons show ?thesis by (simp del: processLines.simps add: processLines_blank)
  next
    case False
    with Cons.prems have "valid_line g" by simp
    with False Cons show ?thesis by (simp del: processLines.simps add: processLines_valid)
  qed
qed

lemma processLines_all:
  assumes "\<forall>g\<in>set good. g = [] \<or> valid_line g"
  shows "processLines ll good =
     ll\<lparr>List := List ll @ map line_item (filter (\<lambda>g. g \<noteq> []) good), Success := True\<rparr>"
  using assms
proof (induction good arbitrary: ll)
  case Nil
  then show ?case by simp
next
  case (Cons g gs)
  show ?case
  proof (cases "g = []")
    case True
    with Cons show ?thesis by (simp del: processLines.simps add: processLines_blank)
  next
    case False
    with Cons.prems have "valid_line g" by simp
    with False Cons show ?thesis by (simp del: processLines.simps add: processLines_valid)
  qed
qed

text \<open>The definitions that evaluate the list decoder on a concrete response.\<close>

lemmas list_eval_defs = LogList_processResponse_def newline_def Let_def ParseUint_def isDigit_def
  digitVal_def maxUint64_def ByteCount_def MBToGB_def MBToGB_loop.simps float64_of_uint64_def
  fmt_1f_def fmt_d.simps digitChar_def fmt_v_strings_def

lemma valid_erigon_line: "valid_line ''erigon.log | 2048''"
  by (simp add: valid_line_def isNumeral_def isDigit_def decVal_def digitVal_def)

lemma item_erigon_line:
  "line_item ''erigon.log | 2048'' = \<lparr>Filename = ''erigon.log'', Size = 2048, PrintedSize = ''2.0KB''\<rparr>"
  by (simp add: line_item_def decVal_def digitVal_def list_eval_defs)

text \<open>
  C8, as amended. With \<open>success = false\<close> the snippet decoder and the list decoder take
  the raw text as the error and parse nothing. With \<open>success = true\<close>, a list response
  whose first line does not carry the marker is a decode error; a served chunk response
  without error field whose first line does not carry the marker (any marker \<open>m\<close> that
  the pattern's \<open>SUCCESS: \<close> starts with) is a decode error under the retry ceiling. The
  snippet decoder does not require the marker: it drops the first line when it carries
  the marker and keeps every line otherwise, and sets \<open>Success\<close> and no error in both
  cases.
\<close>

theorem marker_required:
  "LogPart_processResponse successLine lp result False = lp\<lparr>SuccessP := False, ErrorP := result\<rparr>
   \<and> LogList_processResponse successLine ll result False = ll\<lparr>Error := result\<rparr>
   \<and> (\<not> prefix successLine (Split result [newline] ! 0) \<longrightarrow>
        LogList_processResponse successLine ll result True =
          ll\<lparr>Error :=
               (if length (Split result [newline]) < 2
                then ''incorrect response (length of lines should be at least 2): ''
                else ''incorrect response (first line needs to be SUCCESS): '')
               @ fmt_v_strings (Split result [newline])\<rparr>)
   \<and> (served nr \<and> err nr = [] \<and> prefix m ''SUCCESS: ''
        \<and> \<not> prefix m (takeWhile (\<lambda>c. c \<noteq> newline) (response nr)) \<longrightarrow>
        (\<exists>e. e \<noteq> [] \<and> parseLogPart nr off = (16 \<le> retries nr, 0, 0, [], e)))
   \<and> LogPart_processResponse successLine lp result True =
        lp\<lparr>SuccessP := True,
           Lines := (if prefix successLine (Split result [newline] ! 0)
                     then drop 1 (Split result [newline]) else Split result [newline])\<rparr>"
proof -
  have ne: "1 \<le> length (Split result [newline])"
    using Split_not_Nil [of result "[newline]"] by (cases "Split result [newline]") auto
  have c1: "LogPart_processResponse successLine lp result False = lp\<lparr>SuccessP := False, ErrorP := result\<rparr>"
    by (simp add: LogPart_processResponse_def)
  have c2: "LogList_processResponse successLine ll result False = ll\<lparr>Error := result\<rparr>"
    by (simp add: LogList_processResponse_def)
  have c3: "\<not> prefix successLine (Split result [newline] ! 0) \<longrightarrow>
        LogList_processResponse successLine ll result True =
          ll\<lparr>Error :=
               (if length (Split result [newline]) < 2
                then ''incorrect response (length of lines should be at least 2): ''
                else ''incorrect response (first line needs to be SUCCESS): '')
               @ fmt_v_strings (Split result [newline])\<rparr>"
    by (simp add: LogList_processResponse_def Let_def)
  have c4: "served nr \<and> err nr = [] \<and> prefix m ''SUCCESS: ''
        \<and> \<not> prefix m (takeWhile (\<lambda>c. c \<noteq> newline) (response nr)) \<longrightarrow>
        (\<exists>e. e \<noteq> [] \<and> parseLogPart nr off = (16 \<le> retries nr, 0, 0, [], e))"
    using parseLogPart_no_marker [of nr m off] by blast
  have c5: "LogPart_processResponse successLine lp result True =
        lp\<lparr>SuccessP := True,
           Lines := (if prefix successLine (Split result [newline] ! 0)
                     then drop 1 (Split result [newline]) else Split result [newline])\<rparr>"
    using ne by (simp add: LogPart_processResponse_def Let_def)
  from c1 c2 c3 c4 c5 show ?thesis by blast
qed

text \<open>
  The theorem at a list response and a chunk response that start with \<open>FAILURE\<close>.
\<close>

theorem marker_required_witness:
  "\<not> prefix ''SUCCESS'' (Split ''FAILURE\<newline>erigon.log | 2048'' [newline] ! 0)
   \<and> LogList_processResponse ''SUCCESS'' ll_0 ''FAILURE\<newline>erigon.log | 2048'' True =
        \<lparr>Success = False,
         Error = ''incorrect response (first line needs to be SUCCESS): [FAILURE erigon.log | 2048]'',
         SessionName = ''node1'', List = []\<rparr>
   \<and> served chunk_no_marker \<and> err chunk_no_marker = [] \<and> prefix ''SUCCESS'' ''SUCCESS: ''
   \<and> \<not> prefix ''SUCCESS'' (takeWhile (\<lambda>c. c \<noteq> newline) (response chunk_no_marker))
   \<and> (\<exists>e. e \<noteq> [] \<and> parseLogPart chunk_no_marker 0 = (True, 0, 0, [], e))"
proof -
  have sp: "Split ''FAILURE\<newline>erigon.log | 2048'' [newline] = [''FAILURE'', ''erigon.log | 2048'']"
    by (simp add: newline_def)
  have h1: "\<not> prefix ''SUCCESS'' (Split ''FAILURE\<newline>erigon.log | 2048'' [newline] ! 0)"
    by (simp add: sp del: Split.simps)
  have h2a: "served chunk_no_marker" and h2b: "err chunk_no_marker = []"
    and h2c: "prefix ''SUCCESS'' ''SUCCESS: ''"
    and h2d: "\<not> prefix ''SUCCESS'' (takeWhile (\<lambda>c. c \<noteq> newline) (response chunk_no_marker))"
    by (simp_all add: chunk_no_marker_def newline_def)
  have r: "retries chunk_no_marker = 16" by (simp add: chunk_no_marker_def)
  note t = marker_required [of "''SUCCESS''" lp_0 "''FAILURE\<newline>erigon.log | 2048''" ll_0
      chunk_no_marker "''SUCCESS''" 0]
  from t h1 have a: "LogList_processResponse ''SUCCESS'' ll_0 ''FAILURE\<newline>erigon.log | 2048'' True =
        \<lparr>Success = False,
         Error = ''incorrect response (first line needs to be SUCCESS): [FAILURE erigon.log | 2048]'',
         SessionName = ''node1'', List = []\<rparr>"
    by (simp add: sp ll_0_def fmt_v_strings_def del: Split.simps)
  from t h2a h2b h2c h2d r
  have b: "\<exists>e. e \<noteq> [] \<and> parseLogPart chunk_no_marker 0 = (True, 0, 0, [], e)"
    by simp
  show ?thesis by (intro conjI h1 a h2a h2b h2c h2d b)
qed

text \<open>
  C8 as stated fails for the snippet decoder: a successful response without the marker
  is no decode error; it is a success whose lines are the whole response.
\<close>

theorem snippet_without_marker:
  "\<not> prefix ''SUCCESS'' (Split ''no such file'' [newline] ! 0)
   \<and> LogPart_processResponse ''SUCCESS'' lp_0 ''no such file'' True =
        \<lparr>SuccessP = True, ErrorP = [], Lines = [''no such file'']\<rparr>"
  by (simp add: LogPart_processResponse_def lp_0_def newline_def)

text \<open>
  C9, as amended. In a successful list response of two lines or more whose first line
  carries the marker, let \<open>l\<close> be the first line after it that is neither empty nor
  valid, the lines \<open>good\<close> before it being empty or valid. Decoding stops at \<open>l\<close> with a
  hard error and \<open>Success\<close> is not set: when \<open>l\<close> does not split into exactly two fields
  on \<open>" | "\<close> the message ends with the line \<open>l\<close> itself; when its second field is not
  an unsigned decimal integer of 64 bits the message ends with that field. The entries
  of the valid lines before \<open>l\<close> are in \<open>List\<close>; the lines after \<open>l\<close> are not decoded.
\<close>

theorem LogList_bad_line:
  assumes "Split result [newline] = first # good @ l # rest"
    and "prefix successLine first"
    and "\<forall>g\<in>set good. g = [] \<or> valid_line g"
    and "l \<noteq> []" and "\<not> valid_line l"
  shows "LogList_processResponse successLine ll result True =
     ll\<lparr>List := List ll @ map line_item (filter (\<lambda>g. g \<noteq> []) good),
        Error := (if length (Split l '' | '') \<noteq> 2
                  then ''incorrect response line (need to have 2 terms divided by |): '' @ l
                  else ''incorrect size: '' @ Split l '' | '' ! 1)\<rparr>"
proof -
  have "LogList_processResponse successLine ll result True = processLines ll (good @ l # rest)"
    using assms(1,2) by (simp add: LogList_processResponse_def)
  also have "\<dots> = ll\<lparr>List := List ll @ map line_item (filter (\<lambda>g. g \<noteq> []) good),
                       Error := line_error l\<rparr>"
    using assms(3-5) by (rule processLines_stop)
  finally show ?thesis by (simp add: line_error_def)
qed

text \<open>
  The theorem at a response whose third line has no separator.
\<close>

theorem LogList_bad_line_witness:
  "Split list_response_bad_split [newline]
     = ''SUCCESS'' # [''erigon.log | 2048''] @ ''broken line'' # [''rest.log | 1'', []]
   \<and> prefix ''SUCCESS'' ''SUCCESS'' \<and> valid_line ''erigon.log | 2048''
   \<and> ''broken line'' \<noteq> [] \<and> \<not> valid_line ''broken line''
   \<and> LogList_processResponse ''SUCCESS'' ll_0 list_response_bad_split True =
        \<lparr>Success = False,
         Error = ''incorrect response line (need to have 2 terms divided by |): broken line'',
         SessionName = ''node1'',
         List = [\<lparr>Filename = ''erigon.log'', Size = 2048, PrintedSize = ''2.0KB''\<rparr>]\<rparr>"
proof -
  have h1: "Split list_response_bad_split [newline]
     = ''SUCCESS'' # [''erigon.log | 2048''] @ ''broken line'' # [''rest.log | 1'', []]"
    by (simp add: list_response_bad_split_def newline_def)
  have h2: "prefix ''SUCCESS'' ''SUCCESS''" by simp
  have h3: "\<forall>g\<in>set [''erigon.log | 2048'']. g = [] \<or> valid_line g"
    using valid_erigon_line by simp
  have h4: "''broken line'' \<noteq> []" by simp
  have sp: "Split ''broken line'' '' | '' = [''broken line'']" by simp
  have h5: "\<not> valid_line ''broken line''" by (simp add: valid_line_def sp del: Split.simps)
  have "LogList_processResponse ''SUCCESS'' ll_0 list_response_bad_split True =
        \<lparr>Success = False,
         Error = ''incorrect response line (need to have 2 terms divided by |): broken line'',
         SessionName = ''node1'',
         List = [\<lparr>Filename = ''erigon.log'', Size = 2048, PrintedSize = ''2.0KB''\<rparr>]\<rparr>"
    using LogList_bad_line [OF h1 h2 h3 h4 h5, of ll_0]
    by (simp add: ll_0_def item_erigon_line sp del: Split.simps)
  with h1 h2 valid_erigon_line h4 h5 show ?thesis by blast
qed

text \<open>
  C9 as stated fails at \<open>"SUCCESS\nerigon.log | 2048\nbad.log | 12x\n"\<close>: the message of
  the bad size is \<open>incorrect size: 12x\<close>, without the line \<open>bad.log | 12x\<close>, and the
  entry of the line before it is in the list.
\<close>

theorem LogList_bad_size_keeps_entries:
  "Split list_response_bad_size [newline] = [''SUCCESS'', ''erigon.log | 2048'', ''bad.log | 12x'', []]
   \<and> Split ''bad.log | 12x'' '' | '' = [''bad.log'', ''12x'']
   \<and> LogList_processResponse ''SUCCESS'' ll_0 list_response_bad_size True =
        \<lparr>Success = False, Error = ''incorrect size: 12x'', SessionName = ''node1'',
         List = [\<lparr>Filename = ''erigon.log'', Size = 2048, PrintedSize = ''2.0KB''\<rparr>]\<rparr>"
  by (simp add: list_response_bad_size_def ll_0_def list_eval_defs)

text \<open>
  C10. A successful list response splits into fewer than two lines exactly when it has
  no newline, and then it is rejected with the error
  \<open>incorrect response (length of lines should be at least 2): [<response>]\<close>, the list
  and \<open>Success\<close> left as they were, whatever its first line carries; the marker alone,
  without a newline, is such a response.
\<close>

theorem LogList_too_few_lines:
  "(length (Split result [newline]) < 2 \<longleftrightarrow> newline \<notin> set result)
   \<and> (newline \<notin> set result \<longrightarrow>
        LogList_processResponse successLine ll result True =
          ll\<lparr>Error := ''incorrect response (length of lines should be at least 2): [''
                        @ result @ '']''\<rparr>)"
  by (simp add: length_Split_lt_2 LogList_processResponse_def Split_char_none fmt_v_strings_def)

text \<open>
  The theorem at the response that is the marker \<open>SUCCESS\<close> alone.
\<close>

theorem LogList_too_few_lines_witness:
  "newline \<notin> set ''SUCCESS'' \<and> length (Split ''SUCCESS'' [newline]) < 2
   \<and> prefix ''SUCCESS'' (Split ''SUCCESS'' [newline] ! 0)
   \<and> LogList_processResponse ''SUCCESS'' ll_0 ''SUCCESS'' True =
        \<lparr>Success = False,
         Error = ''incorrect response (length of lines should be at least 2): [SUCCESS]'',
         SessionName = ''node1'', List = []\<rparr>"
proof -
  have n: "newline \<notin> set ''SUCCESS''" by (simp add: newline_def)
  have p: "prefix ''SUCCESS'' (Split ''SUCCESS'' [newline] ! 0)" by (simp add: newline_def)
  from LogList_too_few_lines [of "''SUCCESS''" "''SUCCESS''" ll_0] n
  have "length (Split ''SUCCESS'' [newline]) < 2
    \<and> LogList_processResponse ''SUCCESS'' ll_0 ''SUCCESS'' True =
        \<lparr>Success = False,
         Error = ''incorrect response (length of lines should be at least 2): [SUCCESS]'',
         SessionName = ''node1'', List = []\<rparr>"
    by (simp add: ll_0_def)
  with n p show ?thesis by blast
qed

end
